theory Spec2Isabelle
  imports Complex_Main
begin

section \<open>Finetune utilities (finetune\_gpt2.py)\<close>

text \<open>
  A shallow embedding of the control flow of \<^verbatim>\<open>finetune_gpt2.py\<close>: the training
  loop \<^verbatim>\<open>_train\<close>, the looped validation data loader, the batch selection of the
  cross-entropy forward step and the pretrained-checkpoint section of \<^verbatim>\<open>finetune\<close>.
  Python integers are \<open>int\<close> (floor division and modulus agree with \<open>div\<close> and
  \<open>mod\<close>), exceptions are values of \<open>py_error\<close> on the left of a sum, and calls to
  collaborators that live outside the file (\<^verbatim>\<open>train_step\<close>, \<^verbatim>\<open>save_checkpoint\<close>,
  \<^verbatim>\<open>load_checkpoint\<close>, ...) are recorded as events of a trace, in call order.
\<close>

subsection \<open>Exceptions and the argument namespace\<close>

datatype py_error =
    ZeroDivisionError
  | TypeError
  | AttributeError
  | StopIteration
  | KeyError
  | OtherError string

text \<open>
  The fields of \<^verbatim>\<open>args\<close> that the file reads. An option that may be \<^verbatim>\<open>None\<close> is an
  \<open>option\<close>. \<open>iteration\<close> is the value \<^verbatim>\<open>args.iteration\<close> holds when a function
  is entered.
\<close>

record args =
  iteration :: int
  epochs :: int
  seed :: int
  train_iters_per_epoch :: int
  log_interval :: "int option"
  save :: "string option"
  save_interval :: "int option"
  eval_interval :: "int option"
  fp16 :: bool
  load :: "string option"

subsection \<open>Starting epoch and iteration (lines 139--140)\<close>

text \<open>
  \<^verbatim>\<open>start_epoch = args.iteration // args.train_iters_per_epoch\<close> and
  \<^verbatim>\<open>start_iteration = args.iteration % args.train_iters_per_epoch\<close>; both raise
  \<^verbatim>\<open>ZeroDivisionError\<close> when the divisor is zero.
\<close>

definition start_position :: "int \<Rightarrow> int \<Rightarrow> py_error + (int \<times> int)" where
  "start_position it ipe =
     (if ipe = 0 then Inl ZeroDivisionError else Inr (it div ipe, it mod ipe))"

subsection \<open>Truth values of optional settings\<close>

text \<open>
  Python's truth value of \<^verbatim>\<open>args.save\<close> (a path or \<^verbatim>\<open>None\<close>): \<^verbatim>\<open>None\<close> and the
  empty string are false. An interval (an integer or \<^verbatim>\<open>None\<close>) is false when it is
  \<^verbatim>\<open>None\<close> or \<open>0\<close>; the conditions below test that by cases.
\<close>

definition truthy_str :: "string option \<Rightarrow> bool" where
  "truthy_str s = (case s of None \<Rightarrow> False | Some p \<Rightarrow> p \<noteq> [])"

text \<open>
  \<^verbatim>\<open>x % k\<close> and \<^verbatim>\<open>x / k\<close> with a right operand read from \<^verbatim>\<open>args\<close>: \<^verbatim>\<open>None\<close>
  raises \<^verbatim>\<open>TypeError\<close>, zero raises \<^verbatim>\<open>ZeroDivisionError\<close>.
\<close>

definition py_mod :: "int \<Rightarrow> int option \<Rightarrow> py_error + int" where
  "py_mod x k =
     (case k of
        None \<Rightarrow> Inl TypeError
      | Some n \<Rightarrow> if n = 0 then Inl ZeroDivisionError else Inr (x mod n))"

definition py_truediv :: "real \<Rightarrow> int option \<Rightarrow> py_error + real" where
  "py_truediv x k =
     (case k of
        None \<Rightarrow> Inl TypeError
      | Some n \<Rightarrow> if n = 0 then Inl ZeroDivisionError else Inr (x / real_of_int n))"

subsection \<open>The interval conditions of the training loop (lines 166, 176, 180)\<close>

text \<open>
  \<^verbatim>\<open>args.iteration % args.log_interval == 0\<close>.
\<close>

definition should_log :: "int \<Rightarrow> int option \<Rightarrow> py_error + bool" where
  "should_log it li =
     (case py_mod it li of Inl e \<Rightarrow> Inl e | Inr r \<Rightarrow> Inr (r = 0))"

text \<open>
  \<^verbatim>\<open>args.save and args.save_interval and args.iteration % args.save_interval == 0\<close>:
  the modulus is only taken when both \<^verbatim>\<open>args.save\<close> and the interval are true, so
  the condition never raises.
\<close>

definition should_save :: "int \<Rightarrow> string option \<Rightarrow> int option \<Rightarrow> bool" where
  "should_save it sv si =
     (if truthy_str sv then
        (case si of None \<Rightarrow> False | Some n \<Rightarrow> if n = 0 then False else it mod n = 0)
      else False)"

text \<open>
  \<^verbatim>\<open>args.eval_interval and args.iteration % args.eval_interval == 0\<close>.
\<close>

definition should_eval :: "int \<Rightarrow> int option \<Rightarrow> bool" where
  "should_eval it ei =
     (case ei of None \<Rightarrow> False | Some n \<Rightarrow> if n = 0 then False else it mod n = 0)"

subsection \<open>The training loop (\_train, lines 128--191)\<close>

text \<open>
  The calls the loop makes to its collaborators, in order. \<open>NextBatch i b\<close> is one
  turn of \<^verbatim>\<open>enumerate(train_dataloader)\<close>, drawing batch \<open>b\<close> with index \<open>i\<close>;
  \<open>IntervalSave\<close> is the \<^verbatim>\<open>save_checkpoint\<close> call of line 177 and \<open>EpochSave\<close>
  the one of line 187, both with \<^verbatim>\<open>args.iteration\<close> as their first argument.
\<close>

datatype 'b event =
    SetEpoch int
  | NextBatch int 'b
  | TrainStep 'b
  | ReportMetrics int real
  | IntervalSave int
  | Evaluate int
  | EpochSave int
  | EndOfEpochCallback int

text \<open>
  The mutable state of the loop: \<^verbatim>\<open>args.iteration\<close>, the locals
  \<^verbatim>\<open>start_iteration\<close> and \<^verbatim>\<open>total_lm_loss\<close>, and the trace so far. The loss is
  a real number here: rounding of floating-point sums is not modelled, and no
  property below depends on a loss value.
\<close>

record 'b train_state =
  args_iteration :: int
  start_iteration :: int
  total_lm_loss :: real
  trace :: "'b event list"

definition emit :: "'b event \<Rightarrow> 'b train_state \<Rightarrow> 'b train_state" where
  "emit e st = st\<lparr>trace := trace st @ [e]\<rparr>"

text \<open>
  Lines 166--173: on a logging iteration, report the mean loss since the last report
  and reset the accumulator.
\<close>

definition logging :: "args \<Rightarrow> 'b train_state \<Rightarrow> py_error + 'b train_state" where
  "logging a st =
     (case should_log (args_iteration st) (log_interval a) of
        Inl e \<Rightarrow> Inl e
      | Inr lg \<Rightarrow>
          if lg then
            (case py_truediv (total_lm_loss st) (log_interval a) of
               Inl e \<Rightarrow> Inl e
             | Inr avg_lm_loss \<Rightarrow>
                 Inr ((emit (ReportMetrics (args_iteration st) avg_lm_loss) st)
                        \<lparr>total_lm_loss := 0\<rparr>))
          else Inr st)"

text \<open>Lines 176--177.\<close>

definition checkpointing :: "args \<Rightarrow> 'b train_state \<Rightarrow> 'b train_state" where
  "checkpointing a st =
     (if should_save (args_iteration st) (save a) (save_interval a)
      then emit (IntervalSave (args_iteration st)) st else st)"

text \<open>Lines 180--183.\<close>

definition evaluation :: "args \<Rightarrow> 'b train_state \<Rightarrow> 'b train_state" where
  "evaluation a st =
     (if should_eval (args_iteration st) (eval_interval a)
      then emit (Evaluate (args_iteration st)) st else st)"

text \<open>
  The body of the inner loop (lines 151--183) for the pair \<open>(iteration_, batch)\<close>.
  \<open>train_step it b\<close> is the loss that \<^verbatim>\<open>train_step\<close> returns for batch \<open>b\<close> when
  \<^verbatim>\<open>args.iteration\<close> is \<open>it\<close>. A batch whose index is below
  \<^verbatim>\<open>start_iteration\<close> is drawn and skipped (\<^verbatim>\<open>continue\<close>).
\<close>

definition train_batch ::
  "args \<Rightarrow> (int \<Rightarrow> 'b \<Rightarrow> real) \<Rightarrow> 'b train_state \<Rightarrow> int \<Rightarrow> 'b \<Rightarrow> py_error + 'b train_state"
where
  "train_batch a train_step st i batch =
     (let st0 = emit (NextBatch i batch) st in
      if i < start_iteration st0 then Inr st0
      else
        let st1 = st0\<lparr>start_iteration := 0\<rparr>;
            lm_loss = train_step (args_iteration st1) batch;
            st2 = emit (TrainStep batch) st1;
            st3 = st2\<lparr>args_iteration := args_iteration st2 + 1\<rparr>;
            st4 = st3\<lparr>total_lm_loss := total_lm_loss st3 + lm_loss\<rparr>
        in case logging a st4 of
             Inl e \<Rightarrow> Inl e
           | Inr st5 \<Rightarrow> Inr (evaluation a (checkpointing a st5)))"

text \<open>The inner \<^verbatim>\<open>for\<close> loop over the enumerated batches; an exception ends it.\<close>

fun train_batches ::
  "args \<Rightarrow> (int \<Rightarrow> 'b \<Rightarrow> real) \<Rightarrow> 'b train_state \<Rightarrow> (int \<times> 'b) list \<Rightarrow> py_error + 'b train_state"
where
  "train_batches a train_step st [] = Inr st"
| "train_batches a train_step st ((i, batch) # rest) =
     (case train_batch a train_step st i batch of
        Inl e \<Rightarrow> Inl e
      | Inr st' \<Rightarrow> train_batches a train_step st' rest)"

text \<open>\<^verbatim>\<open>enumerate(xs)\<close>: the elements paired with their indices from 0.\<close>

definition enumerate_from0 :: "'b list \<Rightarrow> (int \<times> 'b) list" where
  "enumerate_from0 xs = zip (map int [0..<length xs]) xs"

text \<open>
  The body of the outer loop (lines 145--191) for one epoch. \<open>dl s\<close> is the list of
  batches the training data loader yields once its sampler's epoch is set to \<open>s\<close>;
  \<open>cb\<close> says that \<^verbatim>\<open>end_of_epoch_callback\<close> is not \<^verbatim>\<open>None\<close>.
\<close>

definition train_epoch ::
  "args \<Rightarrow> (int \<Rightarrow> 'b \<Rightarrow> real) \<Rightarrow> (int \<Rightarrow> 'b list) \<Rightarrow> bool \<Rightarrow> 'b train_state \<Rightarrow> int
     \<Rightarrow> py_error + 'b train_state"
where
  "train_epoch a train_step dl cb st epoch =
     (let st0 = emit (SetEpoch (seed a + epoch)) st in
      case train_batches a train_step st0 (enumerate_from0 (dl (seed a + epoch))) of
        Inl e \<Rightarrow> Inl e
      | Inr st1 \<Rightarrow>
          let st2 = (if truthy_str (save a) then emit (EpochSave (args_iteration st1)) st1 else st1);
              st3 = (if cb then emit (EndOfEpochCallback epoch) st2 else st2)
          in Inr st3)"

fun train_epochs ::
  "args \<Rightarrow> (int \<Rightarrow> 'b \<Rightarrow> real) \<Rightarrow> (int \<Rightarrow> 'b list) \<Rightarrow> bool \<Rightarrow> 'b train_state \<Rightarrow> int list
     \<Rightarrow> py_error + 'b train_state"
where
  "train_epochs a train_step dl cb st [] = Inr st"
| "train_epochs a train_step dl cb st (epoch # rest) =
     (case train_epoch a train_step dl cb st epoch of
        Inl e \<Rightarrow> Inl e
      | Inr st' \<Rightarrow> train_epochs a train_step dl cb st' rest)"

text \<open>
  Lines 137--191: everything \<^verbatim>\<open>_train\<close> does once \<^verbatim>\<open>args.iteration\<close> holds \<open>it\<close>.
  \<^verbatim>\<open>range(start_epoch, args.epochs)\<close> is the list \<open>[start_epoch..epochs - 1]\<close>.
\<close>

definition train_from ::
  "args \<Rightarrow> (int \<Rightarrow> 'b \<Rightarrow> real) \<Rightarrow> (int \<Rightarrow> 'b list) \<Rightarrow> bool \<Rightarrow> int \<Rightarrow> py_error + 'b train_state"
where
  "train_from a train_step dl cb it =
     (case start_position it (train_iters_per_epoch a) of
        Inl e \<Rightarrow> Inl e
      | Inr (start_epoch, start_iter) \<Rightarrow>
          train_epochs a train_step dl cb
            \<lparr>args_iteration = it, start_iteration = start_iter, total_lm_loss = 0, trace = []\<rparr>
            [start_epoch..epochs a - 1])"

text \<open>
  \<^verbatim>\<open>_train\<close>: line 136 sets \<^verbatim>\<open>args.iteration = 0\<close> before the starting position
  is computed from it, so the value it held on entry (\<open>iteration a\<close>) is never read.
\<close>

definition train ::
  "args \<Rightarrow> (int \<Rightarrow> 'b \<Rightarrow> real) \<Rightarrow> (int \<Rightarrow> 'b list) \<Rightarrow> bool \<Rightarrow> py_error + 'b train_state"
where
  "train a train_step dl cb = (let it = 0 in train_from a train_step dl cb it)"

subsection \<open>Reading a trace\<close>

fun report_iterations :: "'b event list \<Rightarrow> int list" where
  "report_iterations [] = []"
| "report_iterations (ReportMetrics i l # es) = i # report_iterations es"
| "report_iterations (e # es) = report_iterations es"

fun interval_save_iterations :: "'b event list \<Rightarrow> int list" where
  "interval_save_iterations [] = []"
| "interval_save_iterations (IntervalSave i # es) = i # interval_save_iterations es"
| "interval_save_iterations (e # es) = interval_save_iterations es"

fun epoch_save_iterations :: "'b event list \<Rightarrow> int list" where
  "epoch_save_iterations [] = []"
| "epoch_save_iterations (EpochSave i # es) = i # epoch_save_iterations es"
| "epoch_save_iterations (e # es) = epoch_save_iterations es"

fun evaluate_iterations :: "'b event list \<Rightarrow> int list" where
  "evaluate_iterations [] = []"
| "evaluate_iterations (Evaluate i # es) = i # evaluate_iterations es"
| "evaluate_iterations (e # es) = evaluate_iterations es"

fun train_steps :: "'b event list \<Rightarrow> 'b list" where
  "train_steps [] = []"
| "train_steps (TrainStep b # es) = b # train_steps es"
| "train_steps (e # es) = train_steps es"

fun drawn_batches :: "'b event list \<Rightarrow> 'b list" where
  "drawn_batches [] = []"
| "drawn_batches (NextBatch i b # es) = b # drawn_batches es"
| "drawn_batches (e # es) = drawn_batches es"

text \<open>
  The iteration an interval-driven action was triggered at: the first argument of the
  report, of the checkpoint of line 177 and of the evaluation.
\<close>

fun interval_iteration :: "'b event \<Rightarrow> int option" where
  "interval_iteration (ReportMetrics i l) = Some i"
| "interval_iteration (IntervalSave i) = Some i"
| "interval_iteration (Evaluate i) = Some i"
| "interval_iteration e = None"

definition after_a_step :: "'b event \<Rightarrow> bool" where
  "after_a_step e = (case interval_iteration e of None \<Rightarrow> True | Some i \<Rightarrow> 1 \<le> i)"

text \<open>The batches a run executed a training step for, and the batches it drew.\<close>

definition executed :: "py_error + 'b train_state \<Rightarrow> py_error + 'b list" where
  "executed r = (case r of Inl e \<Rightarrow> Inl e | Inr st \<Rightarrow> Inr (train_steps (trace st)))"

definition drawn :: "py_error + 'b train_state \<Rightarrow> py_error + 'b list" where
  "drawn r = (case r of Inl e \<Rightarrow> Inl e | Inr st \<Rightarrow> Inr (drawn_batches (trace st)))"

text \<open>
  No batch has been drawn without a training step so far, and none will be skipped.
\<close>

definition no_skip :: "'b train_state \<Rightarrow> bool" where
  "no_skip st = (start_iteration st = 0 \<and> train_steps (trace st) = drawn_batches (trace st))"

subsection \<open>The looped data loader (\_build\_infinite\_size\_dataloader, lines 100--108)\<close>

text \<open>
  A data loader is the finite list of batches one pass over it yields; an iterator over
  it is the list of batches still to come. \<^verbatim>\<open>iterator.__next__()\<close> returns the next
  batch or raises \<^verbatim>\<open>StopIteration\<close>.
\<close>

definition iterator_next :: "'a list \<Rightarrow> py_error + ('a \<times> 'a list)" where
  "iterator_next it = (case it of [] \<Rightarrow> Inl StopIteration | x # rest \<Rightarrow> Inr (x, rest))"

text \<open>
  The \<^verbatim>\<open>while True\<close> loop of the generator, from one resumption to the next
  \<^verbatim>\<open>yield\<close>: on \<^verbatim>\<open>StopIteration\<close> the iterator is rebuilt from the data loader and
  the loop goes round again; any other exception leaves the generator. The loop need
  not end (an empty data loader never yields), so the result is an \<open>option\<close> and
  \<open>None\<close> stands for a loop that runs forever.
\<close>

partial_function (option) looped_next ::
  "'a list \<Rightarrow> 'a list \<Rightarrow> (py_error + ('a \<times> 'a list)) option"
where
  "looped_next dataloader iterator =
     (case iterator_next iterator of
        Inr (x, rest) \<Rightarrow> Some (Inr (x, rest))
      | Inl e \<Rightarrow>
          if e = StopIteration then looped_next dataloader dataloader
          else Some (Inl e))"

text \<open>
  The generator object: before its first \<^verbatim>\<open>next\<close> no line of the body has run, and
  the first resumption executes \<^verbatim>\<open>iterator = dataloader.__iter__()\<close>.
\<close>

datatype 'a looped = Unstarted | Iterating "'a list"

definition generator_next ::
  "'a list \<Rightarrow> 'a looped \<Rightarrow> (py_error + ('a \<times> 'a looped)) option"
where
  "generator_next dataloader g =
     (case looped_next dataloader
             (case g of Unstarted \<Rightarrow> dataloader | Iterating it \<Rightarrow> it) of
        None \<Rightarrow> None
      | Some (Inl e) \<Rightarrow> Some (Inl e)
      | Some (Inr (x, rest)) \<Rightarrow> Some (Inr (x, Iterating rest)))"

text \<open>
  A caller that draws \<open>n\<close> elements with \<open>n\<close> successive \<^verbatim>\<open>next\<close> calls, stopping at
  the first exception.
\<close>

fun draw ::
  "nat \<Rightarrow> 'a list \<Rightarrow> 'a looped \<Rightarrow> (py_error + ('a list \<times> 'a looped)) option"
where
  "draw 0 dataloader g = Some (Inr ([], g))"
| "draw (Suc n) dataloader g =
     (case generator_next dataloader g of
        None \<Rightarrow> None
      | Some (Inl e) \<Rightarrow> Some (Inl e)
      | Some (Inr (x, g')) \<Rightarrow>
          (case draw n dataloader g' of
             None \<Rightarrow> None
           | Some (Inl e) \<Rightarrow> Some (Inl e)
           | Some (Inr (xs, g'')) \<Rightarrow> Some (Inr (x # xs, g''))))"

subsection \<open>The cross-entropy forward step (lines 40--76)\<close>

text \<open>
  What may be passed as \<^verbatim>\<open>batch\<close>: a batch record (a dictionary from field names to
  payloads), or an iterator, given by the outcomes of its successive \<^verbatim>\<open>next\<close>
  calls (an element, or an exception raised by the pipeline behind it).
\<close>

datatype 't batch_source =
    Record "string \<Rightarrow> 't option"
  | Iterator "(py_error + 't batch_source) list"

text \<open>
  \<^verbatim>\<open>next(batch)\<close>: a dictionary is not an iterator (\<^verbatim>\<open>TypeError\<close>), an exhausted
  iterator raises \<^verbatim>\<open>StopIteration\<close>.
\<close>

definition py_next :: "'t batch_source \<Rightarrow> py_error + 't batch_source" where
  "py_next batch =
     (case batch of
        Record r \<Rightarrow> Inl TypeError
      | Iterator [] \<Rightarrow> Inl StopIteration
      | Iterator (Inl e # rest) \<Rightarrow> Inl e
      | Iterator (Inr b # rest) \<Rightarrow> Inr b)"

text \<open>
  \<^verbatim>\<open>batch[key]\<close>: a missing key raises \<^verbatim>\<open>KeyError\<close>, an iterator is not
  subscriptable.
\<close>

definition subscript :: "'t batch_source \<Rightarrow> string \<Rightarrow> py_error + 't" where
  "subscript batch key =
     (case batch of
        Record r \<Rightarrow> (case r key of None \<Rightarrow> Inl KeyError | Some v \<Rightarrow> Inr v)
      | Iterator outcomes \<Rightarrow> Inl TypeError)"

text \<open>
  \<^verbatim>\<open>process_batch\<close> (lines 40--53). The tensor operations are parameters: \<open>half\<close>
  casts the mask to reduced precision and \<open>positions\<close> builds the stacked position ids
  from the tokens.
\<close>

definition process_batch ::
  "('t \<Rightarrow> 't) \<Rightarrow> ('t \<Rightarrow> 't) \<Rightarrow> 't batch_source \<Rightarrow> args
     \<Rightarrow> py_error + ('t \<times> 't \<times> 't \<times> 't \<times> 't)"
where
  "process_batch half positions batch a =
     (case subscript batch ''text'' of
        Inl e \<Rightarrow> Inl e
      | Inr tokens \<Rightarrow>
     (case subscript batch ''types'' of
        Inl e \<Rightarrow> Inl e
      | Inr types \<Rightarrow>
     (case subscript batch ''label'' of
        Inl e \<Rightarrow> Inl e
      | Inr labels \<Rightarrow>
     (case subscript batch ''padding_mask'' of
        Inl e \<Rightarrow> Inl e
      | Inr padding_mask \<Rightarrow>
          Inr (tokens, types, labels, positions tokens,
               if fp16 a then half padding_mask else padding_mask)))))"

text \<open>
  Lines 64--76, for the batch record \<open>batch'\<close> (the source's \<^verbatim>\<open>batch_\<close>) chosen by lines 60--63. \<open>loss_of\<close>
  stands for the model call and the cross-entropy loss on its logits; it returns the
  loss and the memories.
\<close>

definition forward_on ::
  "('t \<Rightarrow> 't) \<Rightarrow> ('t \<Rightarrow> 't) \<Rightarrow> ('t \<times> 't \<times> 't \<times> 't \<Rightarrow> py_error + ('l \<times> 'm)) \<Rightarrow> args
     \<Rightarrow> 't batch_source \<Rightarrow> py_error + ('l \<times> 'm \<times> string)"
where
  "forward_on half positions loss_of a batch' =
     (case process_batch half positions batch' a of
        Inl e \<Rightarrow> Inl e
      | Inr (tokens, types, labels, position_ids, attention_mask) \<Rightarrow>
          (case loss_of (tokens, position_ids, attention_mask, labels) of
             Inl e \<Rightarrow> Inl e
           | Inr (loss, mems) \<Rightarrow> Inr (loss, mems, ''bert'')))"

text \<open>
  \<^verbatim>\<open>cross_entropy_forward_step\<close>: \<^verbatim>\<open>try: batch_ = next(batch)\<close>,
  \<^verbatim>\<open>except BaseException: batch_ = batch\<close>, then the rest of the step.
\<close>

definition cross_entropy_forward_step ::
  "('t \<Rightarrow> 't) \<Rightarrow> ('t \<Rightarrow> 't) \<Rightarrow> ('t \<times> 't \<times> 't \<times> 't \<Rightarrow> py_error + ('l \<times> 'm)) \<Rightarrow> args
     \<Rightarrow> 't batch_source \<Rightarrow> py_error + ('l \<times> 'm \<times> string)"
where
  "cross_entropy_forward_step half positions loss_of a batch =
     (let batch' = (case py_next batch of Inl e \<Rightarrow> batch | Inr b \<Rightarrow> b)
      in forward_on half positions loss_of a batch')"

subsection \<open>Loading the pretrained checkpoint (finetune, lines 225--236)\<close>

text \<open>
  A model handle: one of the two data-parallel wrappers or the precision wrapper around
  a module (their \<^verbatim>\<open>.module\<close> attribute), or any other module, named by a number and
  holding its \<^verbatim>\<open>.model\<close> attribute if it has one.
\<close>

datatype module =
    LocalDDP module
  | TorchDDP module
  | FP16_Module module
  | Module nat "module option"

text \<open>Lines 227--228 and 229--230.\<close>

fun unwrap_ddp :: "module \<Rightarrow> module" where
  "unwrap_ddp (LocalDDP m) = m"
| "unwrap_ddp (TorchDDP m) = m"
| "unwrap_ddp m = m"

fun unwrap_fp16 :: "module \<Rightarrow> module" where
  "unwrap_fp16 (FP16_Module m) = m"
| "unwrap_fp16 m = m"

definition resolve_module :: "module \<Rightarrow> module" where
  "resolve_module model = unwrap_fp16 (unwrap_ddp model)"

text \<open>
  \<^verbatim>\<open>module.model\<close>: the wrappers hold their module under \<^verbatim>\<open>.module\<close> and have no
  attribute \<^verbatim>\<open>model\<close>.
\<close>

fun model_attr :: "module \<Rightarrow> py_error + module" where
  "model_attr (Module n (Some inner)) = Inr inner"
| "model_attr m = Inl AttributeError"

datatype load_event = LoadCheckpoint module | ModelParamsToMasterParams

text \<open>
  The section between the timer calls. \<open>load_checkpoint m\<close> is the outcome of
  \<^verbatim>\<open>load_checkpoint(m, optimizer, lr_scheduler, args)\<close>, whose returned iteration line
  231 drops. The result is the calls made, in order, and the exception that ended the
  section, if any.
\<close>

definition pretrained_checkpoint ::
  "args \<Rightarrow> (module \<Rightarrow> py_error + int) \<Rightarrow> module \<Rightarrow> load_event list \<times> py_error option"
where
  "pretrained_checkpoint a load_checkpoint model =
     (case load a of
        None \<Rightarrow> ([], None)
      | Some path \<Rightarrow>
          (case model_attr (resolve_module model) of
             Inl e \<Rightarrow> ([], Some e)
           | Inr target \<Rightarrow>
               (case load_checkpoint target of
                  Inl e \<Rightarrow> ([LoadCheckpoint target], Some e)
                | Inr it \<Rightarrow>
                    if fp16 a then ([LoadCheckpoint target, ModelParamsToMasterParams], None)
                    else ([LoadCheckpoint target], None))))"

section \<open>Properties\<close>

text \<open>
  C8. For every global iteration and every positive number of iterations per epoch, the
  starting epoch and starting intra-epoch iteration computed by integer division and
  modulus exist and satisfy
  \<open>start_epoch * iters_per_epoch + start_iteration = global_iteration\<close>.
\<close>

theorem start_position_recombines:
  "0 \<le> g \<and> 0 < ipe \<Longrightarrow>
     \<exists>se si. start_position g ipe = Inr (se, si) \<and> se * ipe + si = g"
  by (simp add: start_position_def)

theorem start_position_recombines_witness:
  "(0::int) \<le> 7 \<and> (0::int) < 5 \<and>
     (\<exists>se si. start_position 7 5 = Inr (se, si) \<and> se * 5 + si = 7)"
  using start_position_recombines [of 7 5] by simp

subsection \<open>The interval schedule of a two-epoch run\<close>

text \<open>
  C1. With \<open>epochs = 2\<close>, five batches per epoch, \<open>log_interval = 2\<close>,
  \<open>save_interval = 5\<close>, \<open>eval_interval = 10\<close> and checkpointing enabled (a non-empty
  save path), the loop returns after 10 training steps; the reports are made at
  iterations 2, 4, 6, 8, 10, the interval checkpoints at 5 and 10, one further
  checkpoint at the end of each of the two epochs (with iterations 5 and 10), and the
  evaluation at iteration 10 only. This holds whatever the batches, the losses, the
  seed and the callback are. The two checkpoints at the epoch ends do not depend on the
  save interval: without one they are the only checkpoints.
\<close>

theorem train_two_epoch_schedule:
  "\<exists>st. train \<lparr>iteration = i0, epochs = 2, seed = sd, train_iters_per_epoch = 5,
              log_interval = Some 2, save = Some (c # path), save_interval = Some 5,
              eval_interval = Some 10, fp16 = h, load = l\<rparr>
            ts (\<lambda>s. [b0 s, b1 s, b2 s, b3 s, b4 s]) cb = Inr st
     \<and> length (train_steps (trace st)) = 10
     \<and> args_iteration st = 10
     \<and> report_iterations (trace st) = [2, 4, 6, 8, 10]
     \<and> interval_save_iterations (trace st) = [5, 10]
     \<and> epoch_save_iterations (trace st) = [5, 10]
     \<and> evaluate_iterations (trace st) = [10]
     \<and> (\<exists>st'. train \<lparr>iteration = i0, epochs = 2, seed = sd, train_iters_per_epoch = 5,
              log_interval = Some 2, save = Some (c # path), save_interval = None,
              eval_interval = Some 10, fp16 = h, load = l\<rparr>
            ts (\<lambda>s. [b0 s, b1 s, b2 s, b3 s, b4 s]) cb = Inr st'
          \<and> interval_save_iterations (trace st') = []
          \<and> epoch_save_iterations (trace st') = [5, 10])"
  by (simp add: train_def train_from_def start_position_def train_epoch_def enumerate_from0_def
      train_batch_def logging_def checkpointing_def evaluation_def should_log_def should_save_def
      should_eval_def py_mod_def py_truediv_def truthy_str_def emit_def Let_def upt_rec upto.simps)

subsection \<open>The looped data loader\<close>

lemma looped_next_Cons: "looped_next dl (x # rest) = Some (Inr (x, rest))"
  by (subst looped_next.simps) (simp add: iterator_next_def)

lemma looped_next_Nil: "looped_next dl [] = looped_next dl dl"
  by (subst looped_next.simps) (simp add: iterator_next_def)

lemma generator_next_Iterating_Cons:
  "generator_next dl (Iterating (x # rest)) = Some (Inr (x, Iterating rest))"
  by (simp add: generator_next_def looped_next_Cons)

lemma generator_next_exhausted:
  "generator_next (x # rest) (Iterating []) = Some (Inr (x, Iterating rest))"
  by (simp add: generator_next_def looped_next_Nil looped_next_Cons)

lemma generator_next_Unstarted:
  "generator_next (x # rest) Unstarted = Some (Inr (x, Iterating rest))"
  by (simp add: generator_next_def looped_next_Cons)

lemma draw_remaining: "draw (length ys) dl (Iterating ys) = Some (Inr (ys, Iterating []))"
  by (induction ys) (simp_all add: generator_next_Iterating_Cons)

lemma draw_pass_exhausted:
  "dl \<noteq> [] \<Longrightarrow> draw (length dl) dl (Iterating []) = Some (Inr (dl, Iterating []))"
  by (cases dl) (simp_all add: generator_next_exhausted draw_remaining)

lemma draw_pass_Unstarted:
  "dl \<noteq> [] \<Longrightarrow> draw (length dl) dl Unstarted = Some (Inr (dl, Iterating []))"
  by (cases dl) (simp_all add: generator_next_Unstarted draw_remaining)

lemma draw_add:
  "draw m dl g = Some (Inr (xs, g')) \<Longrightarrow> draw n dl g' = Some (Inr (ys, g''))
     \<Longrightarrow> draw (m + n) dl g = Some (Inr (xs @ ys, g''))"
proof (induction m arbitrary: g xs)
  case 0
  then show ?case by simp
next
  case (Suc m)
  then show ?case
    by (auto split: option.splits sum.splits)
qed

lemma draw_three_passes:
  assumes "xs \<noteq> []"
  shows "draw (3 * length xs) xs Unstarted = Some (Inr (xs @ xs @ xs, Iterating []))"
proof -
  have a: "draw (length xs) xs Unstarted = Some (Inr (xs, Iterating []))"
    using assms by (rule draw_pass_Unstarted)
  have b: "draw (length xs) xs (Iterating []) = Some (Inr (xs, Iterating []))"
    using assms by (rule draw_pass_exhausted)
  have "draw (length xs + length xs) xs (Iterating []) = Some (Inr (xs @ xs, Iterating []))"
    by (rule draw_add [OF b b])
  then have "draw (length xs + (length xs + length xs)) xs Unstarted
      = Some (Inr (xs @ xs @ xs, Iterating []))"
    by (rule draw_add [OF a])
  moreover have "3 * length xs = length xs + (length xs + length xs)" by simp
  ultimately show ?thesis by (simp only:)
qed

text \<open>
  A result of the loop comes from a non-empty data loader or a non-empty iterator: over
  an empty data loader the generator never yields.
\<close>

lemma looped_next_Some_nonempty:
  assumes "looped_next dl it = Some r"
  shows "dl \<noteq> [] \<or> it \<noteq> []"
proof (rule looped_next.raw_induct [where P = "\<lambda>d i y. d \<noteq> [] \<or> i \<noteq> []", OF _ assms])
  fix f :: "'a list \<Rightarrow> 'a list \<Rightarrow> (py_error + 'a \<times> 'a list) option" and d i y
  assume IH: "\<And>d i y. f d i = Some y \<Longrightarrow> d \<noteq> [] \<or> i \<noteq> []"
    and body: "(case iterator_next i of
                  Inl e \<Rightarrow> if e = StopIteration then f d d else Some (Inl e)
                | Inr (x, rest) \<Rightarrow> Some (Inr (x, rest))) = Some y"
  show "d \<noteq> [] \<or> i \<noteq> []"
  proof (cases i)
    case Nil
    with body have "f d d = Some y" by (simp add: iterator_next_def)
    then show ?thesis using IH by blast
  next
    case (Cons a list)
    then show ?thesis by simp
  qed
qed

lemma looped_next_empty: "looped_next [] ([] :: 'a list) = None"
proof (cases "looped_next [] ([] :: 'a list)")
  case None
  then show ?thesis .
next
  case (Some r)
  then show ?thesis using looped_next_Some_nonempty [of "[]" "[]" r] by simp
qed

lemma draw_empty_diverges: "draw (Suc n) [] Unstarted = None"
  by (simp add: generator_next_def looped_next_empty)

text \<open>
  C4. For a data loader that yields the same \<open>n \<ge> 1\<close> batches on every pass, drawing
  \<open>3 * n\<close> elements from the looped data loader returns \<open>3 * n\<close> elements (no call
  raises, \<^verbatim>\<open>StopIteration\<close> included, and none runs forever); the first \<open>n\<close> are the
  data loader's batches, and elements \<open>n + 1\<close> to \<open>2 * n\<close> equal elements \<open>1\<close> to
  \<open>n\<close>.
\<close>

theorem looped_dataloader_three_passes:
  "xs \<noteq> [] \<Longrightarrow>
     \<exists>ys g. draw (3 * length xs) xs Unstarted = Some (Inr (ys, g))
       \<and> length ys = 3 * length xs
       \<and> take (length xs) ys = xs
       \<and> take (length xs) (drop (length xs) ys) = take (length xs) ys"
  by (simp add: draw_three_passes)

theorem looped_dataloader_three_passes_witness:
  "[1, 2 :: nat] \<noteq> [] \<and>
     (\<exists>ys g. draw (3 * length [1, 2 :: nat]) [1, 2 :: nat] Unstarted = Some (Inr (ys, g))
       \<and> length ys = 3 * length [1, 2 :: nat]
       \<and> take (length [1, 2 :: nat]) ys = [1, 2 :: nat]
       \<and> take (length [1, 2 :: nat]) (drop (length [1, 2 :: nat]) ys)
           = take (length [1, 2 :: nat]) ys)"
  using looped_dataloader_three_passes [of "[1, 2 :: nat]"] by simp

subsection \<open>Counting the iterations of the training loop\<close>

text \<open>
  With a usable logging interval no statement of the loop raises, and every batch that
  is not skipped adds one to \<^verbatim>\<open>args.iteration\<close>.
\<close>

lemma logging_ok:
  assumes "log_interval a = Some k" "k \<noteq> 0"
  shows "\<exists>st'. logging a st = Inr st' \<and> args_iteration st' = args_iteration st
           \<and> start_iteration st' = start_iteration st"
  using assms by (simp add: logging_def should_log_def py_mod_def py_truediv_def emit_def)

lemma checkpointing_frame:
  "args_iteration (checkpointing a st) = args_iteration st
     \<and> start_iteration (checkpointing a st) = start_iteration st"
  by (simp add: checkpointing_def emit_def)

lemma evaluation_frame:
  "args_iteration (evaluation a st) = args_iteration st
     \<and> start_iteration (evaluation a st) = start_iteration st"
  by (simp add: evaluation_def emit_def)

lemma train_batch_executes:
  assumes "log_interval a = Some k" "k \<noteq> 0" "\<not> i < start_iteration st"
  shows "\<exists>st'. train_batch a ts st i b = Inr st' \<and> args_iteration st' = args_iteration st + 1
           \<and> start_iteration st' = 0"
proof -
  let ?st4 = "(emit (TrainStep b) ((emit (NextBatch i b) st)\<lparr>start_iteration := 0\<rparr>))
      \<lparr>args_iteration := args_iteration st + 1,
        total_lm_loss := total_lm_loss st + ts (args_iteration st) b\<rparr>"
  obtain st5 where l: "logging a ?st4 = Inr st5" and i5: "args_iteration st5 = args_iteration ?st4"
    and s5: "start_iteration st5 = start_iteration ?st4"
    using logging_ok [OF assms(1,2), of ?st4] by blast
  have "train_batch a ts st i b = Inr (evaluation a (checkpointing a st5))"
    using assms(3) l by (simp add: train_batch_def Let_def emit_def)
  then show ?thesis
    using i5 s5 by (simp add: checkpointing_frame evaluation_frame emit_def)
qed

lemma train_batches_count:
  assumes "log_interval a = Some k" "k \<noteq> 0"
  shows "start_iteration st = 0 \<Longrightarrow> list_all (\<lambda>p. 0 \<le> fst p) ibs \<Longrightarrow>
     \<exists>st'. train_batches a ts st ibs = Inr st'
        \<and> args_iteration st' = args_iteration st + int (length ibs)
        \<and> start_iteration st' = 0"
proof (induction ibs arbitrary: st)
  case Nil
  then show ?case by simp
next
  case (Cons p ibs)
  obtain i b where p: "p = (i, b)" by (cases p)
  with Cons.prems have noskip: "\<not> i < start_iteration st" by simp
  obtain st1 where s1: "train_batch a ts st i b = Inr st1"
    "args_iteration st1 = args_iteration st + 1" "start_iteration st1 = 0"
    using train_batch_executes [OF assms noskip, of ts b] by blast
  from Cons.prems have "list_all (\<lambda>p. 0 \<le> fst p) ibs" by simp
  from Cons.IH [OF s1(3) this] obtain st' where
    "train_batches a ts st1 ibs = Inr st'"
    "args_iteration st' = args_iteration st1 + int (length ibs)" "start_iteration st' = 0"
    by blast
  with s1 p show ?case by simp
qed

lemma enumerate_from0_nonneg: "list_all (\<lambda>p. 0 \<le> fst p) (enumerate_from0 xs)"
  by (auto simp: enumerate_from0_def list_all_iff dest!: set_zip_leftD)

lemma length_enumerate_from0: "length (enumerate_from0 xs) = length xs"
  by (simp add: enumerate_from0_def)

lemma train_epoch_count:
  assumes "log_interval a = Some k" "k \<noteq> 0" "start_iteration st = 0"
  shows "\<exists>st'. train_epoch a ts dl cb st e = Inr st'
        \<and> args_iteration st' = args_iteration st + int (length (dl (seed a + e)))
        \<and> start_iteration st' = 0"
proof -
  let ?st0 = "emit (SetEpoch (seed a + e)) st"
  have "start_iteration ?st0 = 0" using assms(3) by (simp add: emit_def)
  from train_batches_count [OF assms(1,2) this enumerate_from0_nonneg, of ts "dl (seed a + e)"]
  obtain st1 where "train_batches a ts ?st0 (enumerate_from0 (dl (seed a + e))) = Inr st1"
    "args_iteration st1 = args_iteration ?st0 + int (length (dl (seed a + e)))"
    "start_iteration st1 = 0"
    by (auto simp: length_enumerate_from0)
  then show ?thesis
    by (simp add: train_epoch_def Let_def emit_def)
qed

lemma train_epochs_count:
  assumes "log_interval a = Some k" "k \<noteq> 0" "\<forall>s. int (length (dl s)) = n"
  shows "start_iteration st = 0 \<Longrightarrow>
     \<exists>st'. train_epochs a ts dl cb st es = Inr st'
        \<and> args_iteration st' = args_iteration st + int (length es) * n
        \<and> start_iteration st' = 0"
proof (induction es arbitrary: st)
  case Nil
  then show ?case by simp
next
  case (Cons e es)
  from train_epoch_count [OF assms(1,2) Cons.prems, of ts dl cb e] assms(3)
  obtain st1 where s1: "train_epoch a ts dl cb st e = Inr st1"
    "args_iteration st1 = args_iteration st + n" "start_iteration st1 = 0"
    by auto
  from Cons.IH [OF s1(3)] obtain st' where
    "train_epochs a ts dl cb st1 es = Inr st'"
    "args_iteration st' = args_iteration st1 + int (length es) * n" "start_iteration st' = 0"
    by blast
  with s1 show ?case by (simp add: algebra_simps)
qed

lemma train_epochs_append:
  "train_epochs a ts dl cb st (xs @ ys) =
     (case train_epochs a ts dl cb st xs of
        Inl e \<Rightarrow> Inl e
      | Inr st' \<Rightarrow> train_epochs a ts dl cb st' ys)"
  by (induction xs arbitrary: st) (simp_all split: sum.splits)

text \<open>
  C9. Let every epoch's stream hold \<open>train_iters_per_epoch\<close> batches and let the logging
  interval be usable. Then the loop, entered at iteration 0, reaches the end of every
  epoch \<open>e\<close> of the run without raising, and at that epoch boundary
  \<^verbatim>\<open>args.iteration\<close> is \<open>e * iters_per_epoch + iters_per_epoch = (e + 1) * iters_per_epoch\<close>
  (the skip offset is 0); the rest of the run continues from that state.
\<close>

theorem epoch_boundary_iteration:
  assumes "0 < train_iters_per_epoch a"
    and "\<forall>s. int (length (dl s)) = train_iters_per_epoch a"
    and "log_interval a = Some k" and "k \<noteq> 0"
    and "0 \<le> e" and "e < epochs a"
  shows "\<exists>st. train_epochs a ts dl cb
            \<lparr>args_iteration = 0, start_iteration = 0, total_lm_loss = 0, trace = []\<rparr> [0..e] = Inr st
          \<and> args_iteration st = e * train_iters_per_epoch a + train_iters_per_epoch a
          \<and> args_iteration st = (e + 1) * train_iters_per_epoch a
          \<and> start_iteration st = 0
          \<and> train a ts dl cb = train_epochs a ts dl cb st [e + 1..epochs a - 1]"
proof -
  let ?init = "\<lparr>args_iteration = 0, start_iteration = 0, total_lm_loss = 0, trace = []\<rparr> :: 'a train_state"
  have "start_iteration ?init = 0" by simp
  from train_epochs_count [OF assms(3,4,2) this, of ts cb "[0..e]"]
  obtain st where st: "train_epochs a ts dl cb ?init [0..e] = Inr st"
    "args_iteration st = args_iteration ?init + int (length [0..e]) * train_iters_per_epoch a"
    "start_iteration st = 0"
    by blast
  have len: "int (length [0..e]) = e + 1" using assms(5) by simp
  have split: "[0..epochs a - 1] = [0..e] @ [e + 1..epochs a - 1]"
    using assms(5,6) by (intro upto_split2) simp_all
  have "train a ts dl cb = train_epochs a ts dl cb ?init [0..epochs a - 1]"
    using assms(1) by (simp add: train_def train_from_def start_position_def)
  also have "\<dots> = train_epochs a ts dl cb st [e + 1..epochs a - 1]"
    by (simp only: split train_epochs_append st(1) sum.case)
  finally show ?thesis using st len by (simp add: algebra_simps)
qed

theorem epoch_boundary_iteration_witness:
  "0 < train_iters_per_epoch
         \<lparr>iteration = 0, epochs = 2, seed = 0, train_iters_per_epoch = 2, log_interval = Some 1,
          save = None, save_interval = None, eval_interval = None, fp16 = False, load = None\<rparr>
   \<and> (\<forall>s. int (length ((\<lambda>s. [s, s + 1]) (s :: int))) = train_iters_per_epoch
         \<lparr>iteration = 0, epochs = 2, seed = 0, train_iters_per_epoch = 2, log_interval = Some 1,
          save = None, save_interval = None, eval_interval = None, fp16 = False, load = None\<rparr>)
   \<and> log_interval
         \<lparr>iteration = 0, epochs = 2, seed = 0, train_iters_per_epoch = 2, log_interval = Some 1,
          save = None, save_interval = None, eval_interval = None, fp16 = False, load = None\<rparr>
       = Some 1
   \<and> (1 :: int) \<noteq> 0 \<and> (0 :: int) \<le> 1
   \<and> 1 < epochs
         \<lparr>iteration = 0, epochs = 2, seed = 0, train_iters_per_epoch = 2, log_interval = Some 1,
          save = None, save_interval = None, eval_interval = None, fp16 = False, load = None\<rparr>
   \<and> (\<exists>st. train_epochs
         \<lparr>iteration = 0, epochs = 2, seed = 0, train_iters_per_epoch = 2, log_interval = Some 1,
          save = None, save_interval = None, eval_interval = None, fp16 = False, load = None\<rparr>
         (\<lambda>i b. 0) (\<lambda>s. [s, s + 1]) False
         \<lparr>args_iteration = 0, start_iteration = 0, total_lm_loss = 0, trace = []\<rparr> [0..1] = Inr st
       \<and> args_iteration st = 4
       \<and> start_iteration st = 0
       \<and> train
         \<lparr>iteration = 0, epochs = 2, seed = 0, train_iters_per_epoch = 2, log_interval = Some 1,
          save = None, save_interval = None, eval_interval = None, fp16 = False, load = None\<rparr>
         (\<lambda>i b. 0) (\<lambda>s. [s, s + 1]) False = Inr st)"
  using epoch_boundary_iteration
    [of "\<lparr>iteration = 0, epochs = 2, seed = 0, train_iters_per_epoch = 2, log_interval = Some 1,
          save = None, save_interval = None, eval_interval = None, fp16 = False, load = None\<rparr>"
        "\<lambda>s. [s, s + 1]" 1 1 "\<lambda>i b. 0" False]
  by simp

subsection \<open>Interval actions come after a completed step\<close>

lemma trace_emit: "trace (emit e st) = trace st @ [e]"
  by (simp add: emit_def)

lemma args_iteration_emit: "args_iteration (emit e st) = args_iteration st"
  by (simp add: emit_def)

lemma start_iteration_emit: "start_iteration (emit e st) = start_iteration st"
  by (simp add: emit_def)

lemma logging_after_a_step:
  assumes "logging a st = Inr st'" "1 \<le> args_iteration st" "list_all after_a_step (trace st)"
  shows "args_iteration st' = args_iteration st \<and> list_all after_a_step (trace st')"
  using assms
  by (auto simp: logging_def trace_emit args_iteration_emit after_a_step_def
      split: sum.splits if_splits)

lemma checkpointing_after_a_step:
  assumes "1 \<le> args_iteration st" "list_all after_a_step (trace st)"
  shows "args_iteration (checkpointing a st) = args_iteration st
     \<and> list_all after_a_step (trace (checkpointing a st))"
  using assms
  by (simp add: checkpointing_def trace_emit args_iteration_emit after_a_step_def)

lemma evaluation_after_a_step:
  assumes "1 \<le> args_iteration st" "list_all after_a_step (trace st)"
  shows "args_iteration (evaluation a st) = args_iteration st
     \<and> list_all after_a_step (trace (evaluation a st))"
  using assms
  by (simp add: evaluation_def trace_emit args_iteration_emit after_a_step_def)

lemma train_batch_after_a_step:
  assumes "train_batch a ts st i b = Inr st'" "0 \<le> args_iteration st"
    "list_all after_a_step (trace st)"
  shows "0 \<le> args_iteration st' \<and> list_all after_a_step (trace st')"
proof (cases "i < start_iteration st")
  case True
  with assms show ?thesis
    by (auto simp: train_batch_def Let_def emit_def after_a_step_def)
next
  case False
  let ?st4 = "(emit (TrainStep b) ((emit (NextBatch i b) st)\<lparr>start_iteration := 0\<rparr>))
      \<lparr>args_iteration := args_iteration st + 1,
        total_lm_loss := total_lm_loss st + ts (args_iteration st) b\<rparr>"
  from False assms(1) obtain st5 where l: "logging a ?st4 = Inr st5"
    and r: "st' = evaluation a (checkpointing a st5)"
    by (auto simp: train_batch_def Let_def emit_def split: sum.splits)
  have i4: "1 \<le> args_iteration ?st4" using assms(2) by simp
  have t4: "list_all after_a_step (trace ?st4)"
    using assms(3) by (simp add: emit_def after_a_step_def)
  from logging_after_a_step [OF l i4 t4]
  have s5: "1 \<le> args_iteration st5" "list_all after_a_step (trace st5)"
    using i4 by simp_all
  from checkpointing_after_a_step [OF s5, of a]
  have s6: "1 \<le> args_iteration (checkpointing a st5)"
    "list_all after_a_step (trace (checkpointing a st5))"
    using s5(1) by simp_all
  from evaluation_after_a_step [OF s6, of a] s6(1) r show ?thesis by simp
qed

lemma train_batches_after_a_step:
  "train_batches a ts st ibs = Inr st' \<Longrightarrow> 0 \<le> args_iteration st \<Longrightarrow>
     list_all after_a_step (trace st) \<Longrightarrow>
     0 \<le> args_iteration st' \<and> list_all after_a_step (trace st')"
proof (induction ibs arbitrary: st)
  case Nil
  then show ?case by simp
next
  case (Cons p ibs)
  obtain i b where p: "p = (i, b)" by (cases p)
  from Cons.prems(1) p obtain st1 where s1: "train_batch a ts st i b = Inr st1"
    and rest: "train_batches a ts st1 ibs = Inr st'"
    by (auto split: sum.splits)
  from train_batch_after_a_step [OF s1 Cons.prems(2,3)]
  have "0 \<le> args_iteration st1" "list_all after_a_step (trace st1)" by simp_all
  from Cons.IH [OF rest this] show ?case .
qed

lemma train_epoch_after_a_step:
  assumes "train_epoch a ts dl cb st e = Inr st'" "0 \<le> args_iteration st"
    "list_all after_a_step (trace st)"
  shows "0 \<le> args_iteration st' \<and> list_all after_a_step (trace st')"
proof -
  let ?st0 = "emit (SetEpoch (seed a + e)) st"
  from assms(1) obtain st1 where
    b: "train_batches a ts ?st0 (enumerate_from0 (dl (seed a + e))) = Inr st1"
    and r: "st' = (let st2 = (if truthy_str (save a) then emit (EpochSave (args_iteration st1)) st1 else st1)
                   in if cb then emit (EndOfEpochCallback e) st2 else st2)"
    by (auto simp: train_epoch_def Let_def split: sum.splits)
  have "0 \<le> args_iteration ?st0" "list_all after_a_step (trace ?st0)"
    using assms(2,3) by (simp_all add: emit_def after_a_step_def)
  from train_batches_after_a_step [OF b this]
  have "0 \<le> args_iteration st1" "list_all after_a_step (trace st1)" by simp_all
  then show ?thesis
    unfolding r by (simp add: Let_def emit_def after_a_step_def)
qed

lemma train_epochs_after_a_step:
  "train_epochs a ts dl cb st es = Inr st' \<Longrightarrow> 0 \<le> args_iteration st \<Longrightarrow>
     list_all after_a_step (trace st) \<Longrightarrow>
     0 \<le> args_iteration st' \<and> list_all after_a_step (trace st')"
proof (induction es arbitrary: st)
  case Nil
  then show ?case by simp
next
  case (Cons e es)
  from Cons.prems(1) obtain st1 where s1: "train_epoch a ts dl cb st e = Inr st1"
    and rest: "train_epochs a ts dl cb st1 es = Inr st'"
    by (auto split: sum.splits)
  from train_epoch_after_a_step [OF s1 Cons.prems(2,3)]
  have "0 \<le> args_iteration st1" "list_all after_a_step (trace st1)" by simp_all
  from Cons.IH [OF rest this] show ?case .
qed

lemma train_after_a_step:
  assumes "train a ts dl cb = Inr st"
  shows "list_all after_a_step (trace st)"
proof -
  from assms obtain se si where
    "train_epochs a ts dl cb
       \<lparr>args_iteration = 0, start_iteration = si, total_lm_loss = 0, trace = []\<rparr>
       [se..epochs a - 1] = Inr st"
    by (auto simp: train_def train_from_def split: sum.splits)
  from train_epochs_after_a_step [OF this] show ?thesis by simp
qed

text \<open>
  C3 as stated fails on the code in three places. The checkpoint condition also reads
  \<^verbatim>\<open>args.save\<close>: at iteration 5 with \<open>save_interval = 5\<close> and no save path it is
  false although \<open>5 mod 5 = 0\<close>. The conditions are true at iteration 0 for every
  usable interval. An absent logging interval raises \<^verbatim>\<open>TypeError\<close> instead of
  yielding false.
\<close>

theorem interval_decisions_counterexample:
  "\<not> (should_save 5 None (Some 5) = ((5 :: int) mod 5 = 0))
   \<and> should_log 0 (Some 2) = Inr True
   \<and> should_log 5 None = Inl TypeError"
  by (simp add: should_save_def should_log_def py_mod_def truthy_str_def)

text \<open>
  C3, amended. The three conditions are functions of the iteration, the intervals and,
  for the checkpoint, \<^verbatim>\<open>args.save\<close>. With a non-zero logging interval \<open>k\<close> the
  logging condition is \<open>it mod k = 0\<close>; an absent logging interval raises
  \<^verbatim>\<open>TypeError\<close>. The checkpoint condition holds iff \<^verbatim>\<open>args.save\<close> is true and the
  save interval is set, non-zero and divides the iteration; the evaluation condition
  holds iff the evaluation interval is set, non-zero and divides the iteration; an
  absent save or evaluation interval yields false. The conditions themselves are true
  at iteration 0, but the loop evaluates them only after the increment of line 162:
  in every run of \<^verbatim>\<open>_train\<close> each report, interval checkpoint and evaluation carries
  an iteration of at least 1.
\<close>

theorem interval_decisions:
  "(k \<noteq> 0 \<longrightarrow> should_log it (Some k) = Inr (it mod k = 0))
   \<and> should_log it None = Inl TypeError
   \<and> should_save it sv si = (truthy_str sv \<and> (\<exists>n. si = Some n \<and> n \<noteq> 0 \<and> it mod n = 0))
   \<and> should_eval it ei = (\<exists>n. ei = Some n \<and> n \<noteq> 0 \<and> it mod n = 0)
   \<and> should_save it sv None = False
   \<and> should_eval it None = False
   \<and> (k \<noteq> 0 \<longrightarrow> should_log 0 (Some k) = Inr True)
   \<and> (train a ts dl cb = Inr st \<longrightarrow> list_all after_a_step (trace st))"
proof -
  have "train a ts dl cb = Inr st \<longrightarrow> list_all after_a_step (trace st)"
    using train_after_a_step by blast
  moreover have "should_save it sv si
      = (truthy_str sv \<and> (\<exists>n. si = Some n \<and> n \<noteq> 0 \<and> it mod n = 0))"
    by (cases si) (simp_all add: should_save_def)
  moreover have "should_eval it ei = (\<exists>n. ei = Some n \<and> n \<noteq> 0 \<and> it mod n = 0)"
    by (cases ei) (simp_all add: should_eval_def)
  ultimately show ?thesis
    by (simp add: should_log_def py_mod_def should_save_def should_eval_def)
qed

theorem interval_decisions_witness:
  "(2 :: int) \<noteq> 0 \<and> should_log 4 (Some 2) = Inr True
   \<and> (\<exists>st. train \<lparr>iteration = 0, epochs = 1, seed = 0, train_iters_per_epoch = 2,
                  log_interval = Some 1, save = Some ''ckpt'', save_interval = Some 1,
                  eval_interval = Some 2, fp16 = False, load = None\<rparr>
               (\<lambda>i b. 0) (\<lambda>s. [s, s + 1]) False = Inr st
          \<and> list_all after_a_step (trace st))"
proof -
  obtain st where st:
    "train \<lparr>iteration = 0, epochs = 1, seed = 0, train_iters_per_epoch = 2,
            log_interval = Some 1, save = Some ''ckpt'', save_interval = Some 1,
            eval_interval = Some 2, fp16 = False, load = None\<rparr>
       (\<lambda>i b. 0) (\<lambda>s. [s, s + 1 :: int]) False = Inr st"
    by (simp add: train_def train_from_def start_position_def train_epoch_def enumerate_from0_def
      train_batch_def logging_def checkpointing_def evaluation_def should_log_def should_save_def
      should_eval_def py_mod_def py_truediv_def truthy_str_def emit_def Let_def upt_rec upto.simps)
  from interval_decisions [of 2 4 None None None
      "\<lparr>iteration = 0, epochs = 1, seed = 0, train_iters_per_epoch = 2,
            log_interval = Some 1, save = Some ''ckpt'', save_interval = Some 1,
            eval_interval = Some 2, fp16 = False, load = None\<rparr>"
      "\<lambda>i b. 0" "\<lambda>s. [s, s + 1 :: int]" False st] st
  show ?thesis by auto
qed

subsection \<open>No batch is skipped when the loop starts at iteration 0\<close>

lemma train_steps_append: "train_steps (es @ fs) = train_steps es @ train_steps fs"
  by (induction es rule: train_steps.induct) simp_all

lemma drawn_batches_append: "drawn_batches (es @ fs) = drawn_batches es @ drawn_batches fs"
  by (induction es rule: drawn_batches.induct) simp_all

lemma no_skip_emit:
  "no_skip st \<Longrightarrow> (case e of TrainStep b \<Rightarrow> False | NextBatch i b \<Rightarrow> False | _ \<Rightarrow> True)
     \<Longrightarrow> no_skip (emit e st)"
  by (cases e) (simp_all add: no_skip_def emit_def train_steps_append drawn_batches_append)

lemma logging_no_skip:
  assumes "logging a st = Inr st'" "no_skip st"
  shows "no_skip st'"
  using assms
  by (auto simp: logging_def no_skip_def emit_def train_steps_append drawn_batches_append
      split: sum.splits if_splits)

lemma checkpointing_no_skip: "no_skip st \<Longrightarrow> no_skip (checkpointing a st)"
  by (simp add: checkpointing_def no_skip_emit)

lemma evaluation_no_skip: "no_skip st \<Longrightarrow> no_skip (evaluation a st)"
  by (simp add: evaluation_def no_skip_emit)

lemma train_batch_no_skip:
  assumes "train_batch a ts st i b = Inr st'" "no_skip st" "0 \<le> i"
  shows "no_skip st'"
proof -
  let ?st4 = "(emit (TrainStep b) ((emit (NextBatch i b) st)\<lparr>start_iteration := 0\<rparr>))
      \<lparr>args_iteration := args_iteration st + 1,
        total_lm_loss := total_lm_loss st + ts (args_iteration st) b\<rparr>"
  have "\<not> i < start_iteration st" using assms(2,3) by (simp add: no_skip_def)
  with assms(1) obtain st5 where l: "logging a ?st4 = Inr st5"
    and r: "st' = evaluation a (checkpointing a st5)"
    by (auto simp: train_batch_def Let_def emit_def split: sum.splits)
  have "no_skip ?st4"
    using assms(2) by (simp add: no_skip_def emit_def train_steps_append drawn_batches_append)
  from logging_no_skip [OF l this] show ?thesis
    unfolding r by (intro evaluation_no_skip checkpointing_no_skip)
qed

lemma train_batches_no_skip:
  "train_batches a ts st ibs = Inr st' \<Longrightarrow> no_skip st \<Longrightarrow> list_all (\<lambda>p. 0 \<le> fst p) ibs
     \<Longrightarrow> no_skip st'"
proof (induction ibs arbitrary: st)
  case Nil
  then show ?case by simp
next
  case (Cons p ibs)
  obtain i b where p: "p = (i, b)" by (cases p)
  from Cons.prems(1) p obtain st1 where s1: "train_batch a ts st i b = Inr st1"
    and rest: "train_batches a ts st1 ibs = Inr st'"
    by (auto split: sum.splits)
  from Cons.prems(3) p have i: "0 \<le> i" and tl: "list_all (\<lambda>p. 0 \<le> fst p) ibs" by simp_all
  from train_batch_no_skip [OF s1 Cons.prems(2) i] have "no_skip st1" .
  from Cons.IH [OF rest this tl] show ?case .
qed

lemma train_epoch_no_skip:
  assumes "train_epoch a ts dl cb st e = Inr st'" "no_skip st"
  shows "no_skip st'"
proof -
  let ?st0 = "emit (SetEpoch (seed a + e)) st"
  from assms(1) obtain st1 where
    b: "train_batches a ts ?st0 (enumerate_from0 (dl (seed a + e))) = Inr st1"
    and r: "st' = (let st2 = (if truthy_str (save a) then emit (EpochSave (args_iteration st1)) st1 else st1)
                   in if cb then emit (EndOfEpochCallback e) st2 else st2)"
    by (auto simp: train_epoch_def Let_def split: sum.splits)
  have "no_skip ?st0" using assms(2) by (simp add: no_skip_emit)
  from train_batches_no_skip [OF b this enumerate_from0_nonneg] have "no_skip st1" .
  then show ?thesis
    unfolding r by (simp add: Let_def no_skip_emit)
qed

lemma train_epochs_no_skip:
  "train_epochs a ts dl cb st es = Inr st' \<Longrightarrow> no_skip st \<Longrightarrow> no_skip st'"
proof (induction es arbitrary: st)
  case Nil
  then show ?case by simp
next
  case (Cons e es)
  from Cons.prems(1) obtain st1 where s1: "train_epoch a ts dl cb st e = Inr st1"
    and rest: "train_epochs a ts dl cb st1 es = Inr st'"
    by (auto split: sum.splits)
  from train_epoch_no_skip [OF s1 Cons.prems(2)] have "no_skip st1" .
  from Cons.IH [OF rest this] show ?case .
qed

lemma train_executes_all_drawn: "executed (train a ts dl cb) = drawn (train a ts dl cb)"
proof (cases "train a ts dl cb")
  case (Inl e)
  then show ?thesis by (simp add: executed_def drawn_def)
next
  case (Inr st)
  then obtain se where
    "train_epochs a ts dl cb
       \<lparr>args_iteration = 0, start_iteration = 0, total_lm_loss = 0, trace = []\<rparr>
       [se..epochs a - 1] = Inr st"
    by (auto simp: train_def train_from_def start_position_def split: if_splits)
  from train_epochs_no_skip [OF this] have "no_skip st" by (simp add: no_skip_def)
  with Inr show ?thesis by (simp add: executed_def drawn_def no_skip_def)
qed

text \<open>
  C2 as stated fails on the code: entered with \<^verbatim>\<open>args.iteration = 7\<close> and five
  iterations per epoch, \<^verbatim>\<open>_train\<close> executes all five batches of epoch 0 and of
  epoch 1; it does not start with the third batch of epoch 1.
\<close>

theorem train_resume_counterexample:
  "executed (train \<lparr>iteration = 7, epochs = 2, seed = 0, train_iters_per_epoch = 5,
                    log_interval = Some 2, save = None, save_interval = None,
                    eval_interval = None, fp16 = False, load = None\<rparr>
               (\<lambda>i b. 0) (\<lambda>s. [(s, 0), (s, 1), (s, 2), (s, 3), (s, 4 :: nat)]) False)
     = Inr [(0, 0), (0, 1), (0, 2), (0, 3), (0, 4), (1, 0), (1, 1), (1, 2), (1, 3), (1, 4)]
   \<and> executed (train \<lparr>iteration = 7, epochs = 2, seed = 0, train_iters_per_epoch = 5,
                    log_interval = Some 2, save = None, save_interval = None,
                    eval_interval = None, fp16 = False, load = None\<rparr>
               (\<lambda>i b. 0) (\<lambda>s. [(s, 0), (s, 1), (s, 2), (s, 3), (s, 4 :: nat)]) False)
     \<noteq> Inr [(1, 2), (1, 3), (1, 4)]"
  by (simp add: executed_def train_def train_from_def start_position_def train_epoch_def
      enumerate_from0_def train_batch_def logging_def checkpointing_def evaluation_def
      should_log_def should_save_def should_eval_def py_mod_def py_truediv_def truthy_str_def
      emit_def Let_def upt_rec upto.simps)

text \<open>
  C2, amended. \<^verbatim>\<open>_train\<close> sets \<^verbatim>\<open>args.iteration\<close> to 0 on entry, so whatever
  iteration was recorded the loop starts at epoch 0 with skip offset 0
  (\<open>start_position 0 5 = (0, 0)\<close>) and every batch it draws gets a training step, in
  every run. The arithmetic and the skip are as the claim describes them:
  \<open>start_position 7 5 = (1, 2)\<close>, and the loop of lines 137--191 entered with
  iteration 7 (three epochs of five batches) draws the five batches of epoch 1,
  executes no step for the first two, executes the third batch first, and executes
  every batch of epoch 2.
\<close>

theorem train_restarts_from_zero:
  "executed (train a ts dl cb) = drawn (train a ts dl cb)
   \<and> start_position 0 5 = Inr (0, 0)
   \<and> start_position 7 5 = Inr (1, 2)
   \<and> executed (train \<lparr>iteration = 7, epochs = 3, seed = sd, train_iters_per_epoch = 5,
                    log_interval = Some 2, save = None, save_interval = None,
                    eval_interval = None, fp16 = h, load = l\<rparr>
               ts (\<lambda>s. [b s 0, b s 1, b s 2, b s 3, b s (4 :: nat)]) cb)
       = Inr [b sd 0, b sd 1, b sd 2, b sd 3, b sd 4,
              b (sd + 1) 0, b (sd + 1) 1, b (sd + 1) 2, b (sd + 1) 3, b (sd + 1) 4,
              b (sd + 2) 0, b (sd + 2) 1, b (sd + 2) 2, b (sd + 2) 3, b (sd + 2) 4]
   \<and> drawn (train_from \<lparr>iteration = 7, epochs = 3, seed = sd, train_iters_per_epoch = 5,
                    log_interval = Some 2, save = None, save_interval = None,
                    eval_interval = None, fp16 = h, load = l\<rparr>
               ts (\<lambda>s. [b s 0, b s 1, b s 2, b s 3, b s (4 :: nat)]) cb 7)
       = Inr [b (sd + 1) 0, b (sd + 1) 1, b (sd + 1) 2, b (sd + 1) 3, b (sd + 1) 4,
              b (sd + 2) 0, b (sd + 2) 1, b (sd + 2) 2, b (sd + 2) 3, b (sd + 2) 4]
   \<and> executed (train_from \<lparr>iteration = 7, epochs = 3, seed = sd, train_iters_per_epoch = 5,
                    log_interval = Some 2, save = None, save_interval = None,
                    eval_interval = None, fp16 = h, load = l\<rparr>
               ts (\<lambda>s. [b s 0, b s 1, b s 2, b s 3, b s (4 :: nat)]) cb 7)
       = Inr [b (sd + 1) 2, b (sd + 1) 3, b (sd + 1) 4,
              b (sd + 2) 0, b (sd + 2) 1, b (sd + 2) 2, b (sd + 2) 3, b (sd + 2) 4]"
proof -
  have 1: "executed (train a ts dl cb) = drawn (train a ts dl cb)"
    by (rule train_executes_all_drawn)
  have 2: "start_position 0 5 = Inr (0, 0) \<and> start_position 7 5 = Inr (1, 2)"
    by (simp add: start_position_def)
  have 3: "executed (train \<lparr>iteration = 7, epochs = 3, seed = sd, train_iters_per_epoch = 5,
                    log_interval = Some 2, save = None, save_interval = None,
                    eval_interval = None, fp16 = h, load = l\<rparr>
               ts (\<lambda>s. [b s 0, b s 1, b s 2, b s 3, b s (4 :: nat)]) cb)
       = Inr [b sd 0, b sd 1, b sd 2, b sd 3, b sd 4,
              b (sd + 1) 0, b (sd + 1) 1, b (sd + 1) 2, b (sd + 1) 3, b (sd + 1) 4,
              b (sd + 2) 0, b (sd + 2) 1, b (sd + 2) 2, b (sd + 2) 3, b (sd + 2) 4]"
    by (simp add: executed_def train_def train_from_def start_position_def train_epoch_def
      enumerate_from0_def train_batch_def logging_def checkpointing_def evaluation_def
      should_log_def should_save_def should_eval_def py_mod_def py_truediv_def truthy_str_def
      emit_def Let_def upt_rec upto.simps)
  have 4: "drawn (train_from \<lparr>iteration = 7, epochs = 3, seed = sd, train_iters_per_epoch = 5,
                    log_interval = Some 2, save = None, save_interval = None,
                    eval_interval = None, fp16 = h, load = l\<rparr>
               ts (\<lambda>s. [b s 0, b s 1, b s 2, b s 3, b s (4 :: nat)]) cb 7)
       = Inr [b (sd + 1) 0, b (sd + 1) 1, b (sd + 1) 2, b (sd + 1) 3, b (sd + 1) 4,
              b (sd + 2) 0, b (sd + 2) 1, b (sd + 2) 2, b (sd + 2) 3, b (sd + 2) 4]"
    by (simp add: drawn_def train_from_def start_position_def train_epoch_def
      enumerate_from0_def train_batch_def logging_def checkpointing_def evaluation_def
      should_log_def should_save_def should_eval_def py_mod_def py_truediv_def truthy_str_def
      emit_def Let_def upt_rec upto.simps)
  have 5: "executed (train_from \<lparr>iteration = 7, epochs = 3, seed = sd, train_iters_per_epoch = 5,
                    log_interval = Some 2, save = None, save_interval = None,
                    eval_interval = None, fp16 = h, load = l\<rparr>
               ts (\<lambda>s. [b s 0, b s 1, b s 2, b s 3, b s (4 :: nat)]) cb 7)
       = Inr [b (sd + 1) 2, b (sd + 1) 3, b (sd + 1) 4,
              b (sd + 2) 0, b (sd + 2) 1, b (sd + 2) 2, b (sd + 2) 3, b (sd + 2) 4]"
    by (simp add: executed_def train_from_def start_position_def train_epoch_def
      enumerate_from0_def train_batch_def logging_def checkpointing_def evaluation_def
      should_log_def should_save_def should_eval_def py_mod_def py_truediv_def truthy_str_def
      emit_def Let_def upt_rec upto.simps)
  from 1 2 3 4 5 show ?thesis by (simp only: simp_thms)
qed

subsection \<open>Loading the pretrained checkpoint\<close>

text \<open>
  C5 as stated fails on the code: \<^verbatim>\<open>load_checkpoint\<close> is not given the module the
  unwrapping ends at but that module's \<^verbatim>\<open>.model\<close> attribute. An unwrapped handle
  \<open>Module 0 (Some (Module 1 None))\<close> is not passed through unchanged, and the
  handle wrapping it in both wrappers does not pass it either: both pass
  \<open>Module 1 None\<close>.
\<close>

theorem checkpoint_bridge_counterexample:
  "fst (pretrained_checkpoint
          \<lparr>iteration = 0, epochs = 1, seed = 0, train_iters_per_epoch = 1, log_interval = Some 1,
           save = None, save_interval = None, eval_interval = None, fp16 = False,
           load = Some ''ckpt''\<rparr>
          (\<lambda>m. Inr 0) (Module 0 (Some (Module 1 None))))
     = [LoadCheckpoint (Module 1 None)]
   \<and> Module 1 None \<noteq> Module 0 (Some (Module 1 None))
   \<and> fst (pretrained_checkpoint
          \<lparr>iteration = 0, epochs = 1, seed = 0, train_iters_per_epoch = 1, log_interval = Some 1,
           save = None, save_interval = None, eval_interval = None, fp16 = False,
           load = Some ''ckpt''\<rparr>
          (\<lambda>m. Inr 0) (LocalDDP (FP16_Module (Module 0 (Some (Module 1 None))))))
     = [LoadCheckpoint (Module 1 None)]"
  by (simp add: pretrained_checkpoint_def resolve_module_def)

text \<open>
  C5, amended. The unwrapping removes a data-parallel wrapper first and a precision
  wrapper second: a module wrapped in both, in either one, or in none resolves to that
  module. \<^verbatim>\<open>load_checkpoint\<close> is then called with the \<^verbatim>\<open>.model\<close> attribute of the
  resolved module, the same call for the wrapped and the unwrapped handle; a resolved
  module without that attribute raises \<^verbatim>\<open>AttributeError\<close> before any load.
\<close>

theorem checkpoint_bridge_unwrapping:
  "resolve_module (LocalDDP (FP16_Module (Module n m))) = Module n m
   \<and> resolve_module (TorchDDP (FP16_Module (Module n m))) = Module n m
   \<and> resolve_module (LocalDDP (Module n m)) = Module n m
   \<and> resolve_module (TorchDDP (Module n m)) = Module n m
   \<and> resolve_module (FP16_Module (Module n m)) = Module n m
   \<and> resolve_module (Module n m) = Module n m
   \<and> model_attr (Module n (Some inner)) = Inr inner
   \<and> model_attr (Module n None) = Inl AttributeError
   \<and> pretrained_checkpoint (a\<lparr>load := Some p\<rparr>) lc (LocalDDP (FP16_Module (Module n m)))
       = pretrained_checkpoint (a\<lparr>load := Some p\<rparr>) lc (Module n m)
   \<and> (\<exists>rest. fst (pretrained_checkpoint (a\<lparr>load := Some p\<rparr>) lc (Module n (Some inner)))
       = LoadCheckpoint inner # rest)
   \<and> pretrained_checkpoint (a\<lparr>load := Some p\<rparr>) lc (Module n None) = ([], Some AttributeError)"
  by (simp add: pretrained_checkpoint_def resolve_module_def split: sum.splits)

text \<open>
  C6. When a load path is configured, reduced precision is on and the load completes
  (the resolved module has its \<^verbatim>\<open>.model\<close> and \<^verbatim>\<open>load_checkpoint\<close> returns), the
  section calls \<^verbatim>\<open>load_checkpoint\<close> and then the optimizer's
  \<^verbatim>\<open>_model_params_to_master_params\<close>, in this order and nothing else. When reduced
  precision is off the hook is not called, whatever the outcome. Without a load path
  nothing is called.
\<close>

theorem master_params_resynchronised:
  "(load a = Some p \<and> fp16 a \<and> model_attr (resolve_module model) = Inr target
      \<and> lc target = Inr it
      \<longrightarrow> pretrained_checkpoint a lc model
            = ([LoadCheckpoint target, ModelParamsToMasterParams], None))
   \<and> (\<not> fp16 a \<longrightarrow> ModelParamsToMasterParams \<notin> set (fst (pretrained_checkpoint a lc model)))
   \<and> (load a = None \<longrightarrow> pretrained_checkpoint a lc model = ([], None))"
  by (auto simp: pretrained_checkpoint_def split: option.splits sum.splits)

theorem master_params_resynchronised_witness:
  "load \<lparr>iteration = 0, epochs = 1, seed = 0, train_iters_per_epoch = 1, log_interval = Some 1,
         save = None, save_interval = None, eval_interval = None, fp16 = True,
         load = Some ''ckpt''\<rparr> = Some ''ckpt''
   \<and> fp16 \<lparr>iteration = 0, epochs = 1, seed = 0, train_iters_per_epoch = 1, log_interval = Some 1,
         save = None, save_interval = None, eval_interval = None, fp16 = True,
         load = Some ''ckpt''\<rparr>
   \<and> model_attr (resolve_module (LocalDDP (FP16_Module (Module 0 (Some (Module 1 None))))))
       = Inr (Module 1 None)
   \<and> (\<lambda>m. Inr 0 :: py_error + int) (Module 1 None) = Inr 0
   \<and> pretrained_checkpoint
        \<lparr>iteration = 0, epochs = 1, seed = 0, train_iters_per_epoch = 1, log_interval = Some 1,
         save = None, save_interval = None, eval_interval = None, fp16 = True,
         load = Some ''ckpt''\<rparr>
        (\<lambda>m. Inr 0) (LocalDDP (FP16_Module (Module 0 (Some (Module 1 None)))))
       = ([LoadCheckpoint (Module 1 None), ModelParamsToMasterParams], None)
   \<and> \<not> fp16 \<lparr>iteration = 0, epochs = 1, seed = 0, train_iters_per_epoch = 1, log_interval = Some 1,
         save = None, save_interval = None, eval_interval = None, fp16 = False,
         load = Some ''ckpt''\<rparr>
   \<and> ModelParamsToMasterParams \<notin> set (fst (pretrained_checkpoint
        \<lparr>iteration = 0, epochs = 1, seed = 0, train_iters_per_epoch = 1, log_interval = Some 1,
         save = None, save_interval = None, eval_interval = None, fp16 = False,
         load = Some ''ckpt''\<rparr>
        (\<lambda>m. Inr 0) (LocalDDP (FP16_Module (Module 0 (Some (Module 1 None)))))))
   \<and> load \<lparr>iteration = 0, epochs = 1, seed = 0, train_iters_per_epoch = 1, log_interval = Some 1,
         save = None, save_interval = None, eval_interval = None, fp16 = True,
         load = None\<rparr> = None
   \<and> pretrained_checkpoint
        \<lparr>iteration = 0, epochs = 1, seed = 0, train_iters_per_epoch = 1, log_interval = Some 1,
         save = None, save_interval = None, eval_interval = None, fp16 = True,
         load = None\<rparr>
        (\<lambda>m. Inr 0) (LocalDDP (FP16_Module (Module 0 (Some (Module 1 None)))))
       = ([], None)"
  using master_params_resynchronised
    [of "\<lparr>iteration = 0, epochs = 1, seed = 0, train_iters_per_epoch = 1, log_interval = Some 1,
         save = None, save_interval = None, eval_interval = None, fp16 = True,
         load = Some ''ckpt''\<rparr>" "''ckpt''"
        "LocalDDP (FP16_Module (Module 0 (Some (Module 1 None))))" "Module 1 None"
        "\<lambda>m. Inr 0" 0]
    master_params_resynchronised
    [of "\<lparr>iteration = 0, epochs = 1, seed = 0, train_iters_per_epoch = 1, log_interval = Some 1,
         save = None, save_interval = None, eval_interval = None, fp16 = False,
         load = Some ''ckpt''\<rparr>" "''ckpt''"
        "LocalDDP (FP16_Module (Module 0 (Some (Module 1 None))))" "Module 1 None"
        "\<lambda>m. Inr 0" 0]
    master_params_resynchronised
    [of "\<lparr>iteration = 0, epochs = 1, seed = 0, train_iters_per_epoch = 1, log_interval = Some 1,
         save = None, save_interval = None, eval_interval = None, fp16 = True,
         load = None\<rparr>" "''ckpt''"
        "LocalDDP (FP16_Module (Module 0 (Some (Module 1 None))))" "Module 1 None"
        "\<lambda>m. Inr 0" 0]
  by (simp add: resolve_module_def)

subsection \<open>The batch of the forward step\<close>

text \<open>
  C10. If \<^verbatim>\<open>next(batch)\<close> raises, whatever the exception, the forward step goes on
  with the argument itself as the batch record; if it returns an element, with that
  element. So a batch record is processed as it is (its \<^verbatim>\<open>next\<close> raises
  \<^verbatim>\<open>TypeError\<close>), and an iterator yields its first batch. An exception raised
  by the drawing is never the step's outcome: for an exhausted iterator, or one whose
  \<^verbatim>\<open>next\<close> raises \<open>e\<close>, the step fails with the \<^verbatim>\<open>TypeError\<close> of subscripting
  the iterator in \<^verbatim>\<open>process_batch\<close>.
\<close>

theorem forward_step_swallows_next_errors:
  "(py_next batch = Inl e
      \<longrightarrow> cross_entropy_forward_step half positions loss_of a batch
            = forward_on half positions loss_of a batch)
   \<and> (py_next batch = Inr b
      \<longrightarrow> cross_entropy_forward_step half positions loss_of a batch
            = forward_on half positions loss_of a b)
   \<and> cross_entropy_forward_step half positions loss_of a (Record r)
       = forward_on half positions loss_of a (Record r)
   \<and> cross_entropy_forward_step half positions loss_of a (Iterator (Inr (Record r) # rest))
       = forward_on half positions loss_of a (Record r)
   \<and> cross_entropy_forward_step half positions loss_of a (Iterator []) = Inl TypeError
   \<and> cross_entropy_forward_step half positions loss_of a (Iterator (Inl e # rest)) = Inl TypeError"
proof -
  have sel: "cross_entropy_forward_step half positions loss_of a src
      = forward_on half positions loss_of a (case py_next src of Inl e \<Rightarrow> src | Inr b \<Rightarrow> b)"
    for src
    by (simp add: cross_entropy_forward_step_def Let_def)
  have not_record: "forward_on half positions loss_of a (Iterator outcomes) = Inl TypeError"
    for outcomes
    by (simp add: forward_on_def process_batch_def subscript_def)
  show ?thesis
    by (simp add: sel not_record py_next_def)
qed

theorem forward_step_swallows_next_errors_witness:
  "py_next (Iterator [Inl (OtherError ''worker died'')] :: nat batch_source)
     = Inl (OtherError ''worker died'')
   \<and> cross_entropy_forward_step id id (\<lambda>x. Inr (0 :: nat, 0 :: nat))
        \<lparr>iteration = 0, epochs = 1, seed = 0, train_iters_per_epoch = 1, log_interval = Some 1,
         save = None, save_interval = None, eval_interval = None, fp16 = False, load = None\<rparr>
        (Iterator [Inl (OtherError ''worker died'')] :: nat batch_source)
       = Inl TypeError
   \<and> py_next (Iterator [Inr (Record (\<lambda>k. Some 0))] :: nat batch_source)
       = Inr (Record (\<lambda>k. Some 0))
   \<and> cross_entropy_forward_step id id (\<lambda>x. Inr (0 :: nat, 0 :: nat))
        \<lparr>iteration = 0, epochs = 1, seed = 0, train_iters_per_epoch = 1, log_interval = Some 1,
         save = None, save_interval = None, eval_interval = None, fp16 = False, load = None\<rparr>
        (Iterator [Inr (Record (\<lambda>k. Some 0))] :: nat batch_source)
       = Inr (0, 0, ''bert'')"
  using forward_step_swallows_next_errors
    [of "Iterator [Inl (OtherError ''worker died'')] :: nat batch_source"
        "OtherError ''worker died''" id id "\<lambda>x. Inr (0 :: nat, 0 :: nat)"
        "\<lparr>iteration = 0, epochs = 1, seed = 0, train_iters_per_epoch = 1, log_interval = Some 1,
         save = None, save_interval = None, eval_interval = None, fp16 = False, load = None\<rparr>"]
    forward_step_swallows_next_errors
    [of "Iterator [Inr (Record (\<lambda>k. Some 0))] :: nat batch_source"
        "OtherError ''worker died''" id id "\<lambda>x. Inr (0 :: nat, 0 :: nat)"
        "\<lparr>iteration = 0, epochs = 1, seed = 0, train_iters_per_epoch = 1, log_interval = Some 1,
         save = None, save_interval = None, eval_interval = None, fp16 = False, load = None\<rparr>"
        "Record (\<lambda>k. Some 0)"]
  by (simp add: py_next_def forward_on_def process_batch_def subscript_def)

end
